theory Spec2Isabelle
  imports Complex_Main "HOL-Library.Word" "HOL-Library.List_Lexorder" "HOL-Library.Option_ord"
begin

section \<open>Strings\<close>

text \<open>
  A JavaScript string is a sequence of 16-bit code units. \<open>lit\<close> turns an ASCII
  literal of the source into such a sequence. An empty string is the only falsy string,
  so \<open>!s\<close> is \<open>s = []\<close>.
\<close>

type_synonym codeUnit = "16 word"
type_synonym jsString = "codeUnit list"

definition lit :: "string \<Rightarrow> jsString" where
  "lit s = map (\<lambda>c. word_of_nat (of_char c)) s"

text \<open>
  The class \<open>\w\<close> of a regular expression without the \<open>u\<close> flag is
  \<open>[A-Za-z0-9_]\<close>; \<open>\s\<close> is the white space and line terminator code units of
  ECMAScript. Under the \<open>i\<close> flag without \<open>u\<close> a code unit from U+0080 on is never
  folded onto an ASCII one, and no white space code unit has a case mapping, so
  \<open>/[^\w\s]/gi\<close> matches exactly the code units outside both classes.
\<close>

definition isWordChar :: "codeUnit \<Rightarrow> bool" where
  "isWordChar c \<longleftrightarrow>
     (0x41 \<le> c \<and> c \<le> 0x5A) \<or> (0x61 \<le> c \<and> c \<le> 0x7A) \<or>
     (0x30 \<le> c \<and> c \<le> 0x39) \<or> c = 0x5F"

definition isWhiteSpace :: "codeUnit \<Rightarrow> bool" where
  "isWhiteSpace c \<longleftrightarrow>
     (0x09 \<le> c \<and> c \<le> 0x0D) \<or> c = 0x20 \<or> c = 0xA0 \<or> c = 0x1680 \<or>
     (0x2000 \<le> c \<and> c \<le> 0x200A) \<or> c = 0x2028 \<or> c = 0x2029 \<or> c = 0x202F \<or>
     c = 0x205F \<or> c = 0x3000 \<or> c = 0xFEFF"

text \<open>\<open>.replace(/[^\w\s]/gi, '')\<close>\<close>

definition stripNonWord :: "jsString \<Rightarrow> jsString" where
  "stripNonWord s = filter (\<lambda>c. isWordChar c \<or> isWhiteSpace c) s"

text \<open>\<open>.replace(/\s+/g, '-')\<close>: every maximal run of white space becomes one hyphen.\<close>

function hyphenateWhitespace :: "jsString \<Rightarrow> jsString" where
  "hyphenateWhitespace [] = []"
| "hyphenateWhitespace (c # cs) =
     (if isWhiteSpace c then 0x2D # hyphenateWhitespace (dropWhile isWhiteSpace cs)
      else c # hyphenateWhitespace cs)"
  by pat_completeness auto
termination
  by (relation "measure length") (auto simp: length_dropWhile_le less_Suc_eq_le)

text \<open>
  \<open>String.prototype.toLowerCase\<close> belongs to the platform, not to the repository: the
  functions below take it as the parameter \<open>lower\<close>. \<open>toLowerCaseLatin1\<close> is the
  instance used on concrete inputs. It agrees with the platform function on every string
  whose code units are below U+0100 or the Kelvin sign U+212A (whose lower case is the
  ASCII letter k).
\<close>

definition toLowerCaseUnit :: "codeUnit \<Rightarrow> codeUnit" where
  "toLowerCaseUnit c =
     (if 0x41 \<le> c \<and> c \<le> 0x5A then c + 0x20
      else if 0xC0 \<le> c \<and> c \<le> 0xDE \<and> c \<noteq> 0xD7 then c + 0x20
      else if c = 0x212A then 0x6B
      else c)"

definition toLowerCaseLatin1 :: "jsString \<Rightarrow> jsString" where
  "toLowerCaseLatin1 s = map toLowerCaseUnit s"

text \<open>
  The slug derived from a title, as both save handlers compute it:
  \<open>title.toLowerCase().replace(/[^\w\s]/gi, '').replace(/\s+/g, '-')\<close>.
\<close>

definition deriveSlug :: "(jsString \<Rightarrow> jsString) \<Rightarrow> jsString \<Rightarrow> jsString" where
  "deriveSlug lower t = hyphenateWhitespace (stripNonWord (lower t))"


section \<open>Blog management: data\<close>

text \<open>
  \<open>BlogPostFormData\<close> is \<open>Omit<BlogPost, 'id' | 'date'>\<close>; the record extension
  below is the same relation read the other way. \<open>status\<close> is one of the strings
  \<open>draft\<close>, \<open>published\<close> and \<open>scheduled\<close>; at run time it is a string that the
  code compares with \<open>===\<close>.
\<close>

record BlogPostFormData =
  title :: jsString
  slug :: jsString
  excerpt :: jsString
  content :: jsString
  coverImage :: jsString
  category :: jsString
  author :: jsString
  status :: jsString
  publishedAt :: jsString
  seoTitle :: jsString
  metaDescription :: jsString
  focusKeyword :: jsString

record BlogPost = BlogPostFormData +
  id' :: jsString
  date :: jsString

definition defaultBlogPostFormData :: BlogPostFormData where
  "defaultBlogPostFormData =
     \<lparr> title = [], slug = [], excerpt = [], content = [], coverImage = [],
       category = [], author = lit ''Admin'', status = lit ''draft'', publishedAt = [],
       seoTitle = [], metaDescription = [], focusKeyword = [] \<rparr>"

text \<open>A notification: the argument of one \<open>toast(...)\<close> call.\<close>

record toast =
  variant :: "jsString option"
  toastTitle :: jsString
  description :: jsString

text \<open>
  The state of the component: the three \<open>useState\<close> cells, the notifications shown so
  far, and how often the \<open>blog-posts\<close> query has been invalidated.
\<close>

record component =
  isCreating :: bool
  isEditing :: "jsString option"
  formData :: BlogPostFormData
  toasts :: "toast list"
  invalidations :: nat

definition initialComponent :: component where
  "initialComponent =
     \<lparr> isCreating = False, isEditing = None, formData = defaultBlogPostFormData,
       toasts = [], invalidations = 0 \<rparr>"

definition showToast :: "toast \<Rightarrow> component \<Rightarrow> component" where
  "showToast t s = s\<lparr>toasts := toasts s @ [t]\<rparr>"

definition errorToast :: "jsString \<Rightarrow> toast" where
  "errorToast msg =
     \<lparr> variant = Some (lit ''destructive''), toastTitle = lit ''Terjadi kesalahan'',
       description = msg \<rparr>"


section \<open>Blog management: requests to the backend\<close>

text \<open>
  A set of column values, as the object literal given to \<open>insert\<close> or \<open>update\<close>;
  a request is one call on \<open>supabase.from('blog_posts')\<close>. The parameter \<open>now\<close> is
  the value of \<open>new Date().toISOString()\<close> when the mutation function runs.
\<close>

type_synonym columns = "string \<rightharpoonup> jsString"

datatype request =
  Insert columns
| Update jsString columns
| Delete jsString

definition createPostMutationFn :: "jsString \<Rightarrow> BlogPostFormData \<Rightarrow> request" where
  "createPostMutationFn now postData =
     Insert [
       ''title'' \<mapsto> title postData,
       ''slug'' \<mapsto> slug postData,
       ''excerpt'' \<mapsto> excerpt postData,
       ''content'' \<mapsto> content postData,
       ''cover_image'' \<mapsto> coverImage postData,
       ''category'' \<mapsto> category postData,
       ''author'' \<mapsto> author postData,
       ''status'' \<mapsto> status postData,
       ''published_at'' \<mapsto>
          (if status postData = lit ''published'' then now else publishedAt postData),
       ''seo_title'' \<mapsto> seoTitle postData,
       ''meta_description'' \<mapsto> metaDescription postData,
       ''focus_keyword'' \<mapsto> focusKeyword postData ]"

definition updatePostMutationFn :: "jsString \<Rightarrow> jsString \<times> BlogPostFormData \<Rightarrow> request" where
  "updatePostMutationFn now v =
     (case v of (i, postData) \<Rightarrow>
       Update i [
         ''title'' \<mapsto> title postData,
         ''slug'' \<mapsto> slug postData,
         ''excerpt'' \<mapsto> excerpt postData,
         ''content'' \<mapsto> content postData,
         ''cover_image'' \<mapsto> coverImage postData,
         ''category'' \<mapsto> category postData,
         ''author'' \<mapsto> author postData,
         ''status'' \<mapsto> status postData,
         ''published_at'' \<mapsto>
            (if status postData = lit ''published'' \<and> publishedAt postData = []
             then now else publishedAt postData),
         ''seo_title'' \<mapsto> seoTitle postData,
         ''meta_description'' \<mapsto> metaDescription postData,
         ''focus_keyword'' \<mapsto> focusKeyword postData ])"

definition deletePostMutationFn :: "jsString \<Rightarrow> request" where
  "deletePostMutationFn i = Delete i"

definition publishPostMutationFn :: "jsString \<Rightarrow> jsString \<Rightarrow> request" where
  "publishPostMutationFn now i =
     Update i [''status'' \<mapsto> lit ''published'', ''published_at'' \<mapsto> now]"


section \<open>Blog management: handlers\<close>

text \<open>
  A handler returns the new state of the component and the request it caused, if any:
  \<open>mutate\<close> runs the mutation function, which makes the one network call.
\<close>

definition validationToast :: toast where
  "validationToast = errorToast (lit ''Judul dan konten harus diisi'')"

definition finalSlug :: "(jsString \<Rightarrow> jsString) \<Rightarrow> BlogPostFormData \<Rightarrow> jsString" where
  "finalSlug lower fd = (if slug fd = [] then deriveSlug lower (title fd) else slug fd)"

definition handleCreatePost ::
  "(jsString \<Rightarrow> jsString) \<Rightarrow> jsString \<Rightarrow> component \<Rightarrow> component \<times> request option" where
  "handleCreatePost lower now s =
     (if title (formData s) = [] \<or> content (formData s) = []
      then (showToast validationToast s, None)
      else (s, Some (createPostMutationFn now
                       ((formData s)\<lparr>slug := finalSlug lower (formData s)\<rparr>))))"

definition handleUpdatePost ::
  "(jsString \<Rightarrow> jsString) \<Rightarrow> jsString \<Rightarrow> component \<Rightarrow> component \<times> request option" where
  "handleUpdatePost lower now s =
     (case isEditing s of
        None \<Rightarrow> (s, None)
      | Some i \<Rightarrow>
          if i = [] then (s, None)
          else if title (formData s) = [] \<or> content (formData s) = []
          then (showToast validationToast s, None)
          else (s, Some (updatePostMutationFn now
                           (i, (formData s)\<lparr>slug := finalSlug lower (formData s)\<rparr>))))"

text \<open>\<open>confirmed\<close> is the answer of the \<open>confirm(...)\<close> dialogue.\<close>

definition handleDeletePost :: "bool \<Rightarrow> jsString \<Rightarrow> component \<Rightarrow> component \<times> request option" where
  "handleDeletePost confirmed i s =
     (if confirmed then (s, Some (deletePostMutationFn i)) else (s, None))"

definition handlePublishPost :: "jsString \<Rightarrow> jsString \<Rightarrow> component \<Rightarrow> component \<times> request option" where
  "handlePublishPost now i s = (s, Some (publishPostMutationFn now i))"


section \<open>Blog management: what happens when a mutation settles\<close>

text \<open>
  The backend answers a request with an error, whose message is kept, or with success.
  Each mutation has an \<open>onSuccess\<close> and an \<open>onError\<close> callback; \<open>categories\<close> is the
  list the category query returned.
\<close>

datatype response = Failed jsString | Succeeded

datatype mutation = CreatePost | UpdatePost | DeletePost | PublishPost

definition invalidateQueries :: "component \<Rightarrow> component" where
  "invalidateQueries s = s\<lparr>invalidations := Suc (invalidations s)\<rparr>"

definition quoted :: "jsString \<Rightarrow> jsString" where
  "quoted t = [0x22] @ t @ [0x22]"

fun onSuccess :: "jsString list \<Rightarrow> mutation \<Rightarrow> component \<Rightarrow> component" where
  "onSuccess categories CreatePost s =
     (let s1 = invalidateQueries s;
          s2 = showToast \<lparr> variant = None, toastTitle = lit ''Artikel berhasil dibuat'',
                  description = lit ''Artikel '' @ quoted (title (formData s)) @
                                lit '' telah berhasil dibuat'' \<rparr> s1
      in s2\<lparr> isCreating := False,
              formData := defaultBlogPostFormData
                \<lparr>category := (case categories of [] \<Rightarrow> [] | c # _ \<Rightarrow> c)\<rparr> \<rparr>)"
| "onSuccess categories UpdatePost s =
     (let s1 = invalidateQueries s;
          s2 = showToast \<lparr> variant = None, toastTitle = lit ''Artikel berhasil diperbarui'',
                  description = lit ''Artikel '' @ quoted (title (formData s)) @
                                lit '' telah berhasil diperbarui'' \<rparr> s1
      in s2\<lparr> isEditing := None \<rparr>)"
| "onSuccess categories DeletePost s =
     showToast \<lparr> variant = None, toastTitle = lit ''Artikel berhasil dihapus'',
                 description = lit ''Artikel telah berhasil dihapus'' \<rparr>
       (invalidateQueries s)"
| "onSuccess categories PublishPost s =
     showToast \<lparr> variant = None, toastTitle = lit ''Artikel berhasil dipublikasikan'',
                 description = lit ''Artikel telah berhasil dipublikasikan'' \<rparr>
       (invalidateQueries s)"

text \<open>The four \<open>onError\<close> callbacks have the same body.\<close>

fun onError :: "mutation \<Rightarrow> jsString \<Rightarrow> component \<Rightarrow> component" where
  "onError CreatePost msg s = showToast (errorToast msg) s"
| "onError UpdatePost msg s = showToast (errorToast msg) s"
| "onError DeletePost msg s = showToast (errorToast msg) s"
| "onError PublishPost msg s = showToast (errorToast msg) s"

definition settle :: "jsString list \<Rightarrow> mutation \<Rightarrow> response \<Rightarrow> component \<Rightarrow> component" where
  "settle categories m r s =
     (case r of Failed msg \<Rightarrow> onError m msg s | Succeeded \<Rightarrow> onSuccess categories m s)"


section \<open>The backend table\<close>

text \<open>
  Modelled from the spec: the hosted table \<open>blog_posts\<close> and the generic table-access
  client (select, insert, update and delete by identifier) are an external collaborator
  with no code in the repository. A table is a list of rows, each an identifier with its
  column values; a column without a value is NULL. Delete-by-id removes the rows with
  that identifier, update-by-id overwrites the given columns of the rows with that
  identifier, insert appends a row under the identifier and creation time the backend
  assigns, and the select of the list query returns the rows by \<open>created_at\<close>,
  latest first.
\<close>

type_synonym row = "jsString \<times> columns"
type_synonym table = "row list"

definition dbDelete :: "jsString \<Rightarrow> table \<Rightarrow> table" where
  "dbDelete i t = filter (\<lambda>r. fst r \<noteq> i) t"

definition dbUpdate :: "jsString \<Rightarrow> columns \<Rightarrow> table \<Rightarrow> table" where
  "dbUpdate i cols t = map (\<lambda>r. if fst r = i then (fst r, snd r ++ cols) else r) t"

definition dbInsert :: "jsString \<times> jsString \<Rightarrow> columns \<Rightarrow> table \<Rightarrow> table" where
  "dbInsert assigned cols t = t @ [(fst assigned, cols(''created_at'' \<mapsto> snd assigned))]"

definition dbSelect :: "table \<Rightarrow> table" where
  "dbSelect t = rev (sort_key (\<lambda>r. snd r ''created_at'') t)"

fun serve :: "jsString \<times> jsString \<Rightarrow> request \<Rightarrow> table \<Rightarrow> table" where
  "serve assigned (Insert cols) t = dbInsert assigned cols t"
| "serve assigned (Update i cols) t = dbUpdate i cols t"
| "serve assigned (Delete i) t = dbDelete i t"

text \<open>The columns of the (first) row with a given identifier.\<close>

definition rowOf :: "table \<Rightarrow> jsString \<Rightarrow> columns option" where
  "rowOf t i = map_of t i"


section \<open>Blog management: the list query\<close>

text \<open>
  The query function of \<open>blog-posts\<close>. \<open>x || d\<close> on a column yields \<open>d\<close> for NULL and
  for the empty string. \<open>status\<close> is passed through a cast; a NULL there, which the
  declared type of \<open>BlogPost\<close> excludes, is read as the empty string. The parameter
  \<open>formatDate\<close> is \<open>new Date(created_at).toLocaleDateString('id-ID', ...)\<close>. A failed
  select yields the empty list (and a notification).
\<close>

definition orElse :: "jsString option \<Rightarrow> jsString \<Rightarrow> jsString" where
  "orElse x d = (case x of None \<Rightarrow> d | Some v \<Rightarrow> if v = [] then d else v)"

definition toBlogPost :: "(jsString option \<Rightarrow> jsString) \<Rightarrow> row \<Rightarrow> BlogPost" where
  "toBlogPost formatDate post =
     \<lparr> title = orElse (snd post ''title'') [],
       slug = orElse (snd post ''slug'') [],
       excerpt = orElse (snd post ''excerpt'') [],
       content = orElse (snd post ''content'') [],
       coverImage = orElse (snd post ''cover_image'') [],
       category = orElse (snd post ''category'') [],
       author = orElse (snd post ''author'') (lit ''Admin''),
       status = (case snd post ''status'' of None \<Rightarrow> [] | Some v \<Rightarrow> v),
       publishedAt = orElse (snd post ''published_at'') [],
       seoTitle = orElse (snd post ''seo_title'') [],
       metaDescription = orElse (snd post ''meta_description'') [],
       focusKeyword = orElse (snd post ''focus_keyword'') [],
       id' = fst post,
       date = formatDate (snd post ''created_at'') \<rparr>"

datatype selectResult = SelectError jsString | SelectData table

definition blogPostsQueryFn ::
  "(jsString option \<Rightarrow> jsString) \<Rightarrow> selectResult \<Rightarrow> component \<Rightarrow> BlogPost list \<times> component" where
  "blogPostsQueryFn formatDate res s =
     (case res of
        SelectError msg \<Rightarrow>
          ([], showToast \<lparr> variant = Some (lit ''destructive''),
                            toastTitle = lit ''Error fetching blog posts'',
                            description = msg \<rparr> s)
      | SelectData data \<Rightarrow> (map (toBlogPost formatDate) data, s))"

text \<open>Fetching the list from a table: the select either fails or returns the ordered rows.\<close>

definition fetchBlogPosts ::
  "(jsString option \<Rightarrow> jsString) \<Rightarrow> jsString option \<Rightarrow> table \<Rightarrow> component \<Rightarrow> BlogPost list \<times> component" where
  "fetchBlogPosts formatDate failure t s =
     blogPostsQueryFn formatDate
       (case failure of Some msg \<Rightarrow> SelectError msg | None \<Rightarrow> SelectData (dbSelect t)) s"


section \<open>URL configuration: the hook useUrlData\<close>

text \<open>
  The values of the platform: what \<open>JSON.parse\<close> and the backend client return, and
  what a property of an object can hold. A number is the value of a double; nothing
  below looks inside one. An object lists its properties, one entry for each name.
\<close>

datatype jsValue =
  Undefined
| Null
| Bool bool
| Num rat
| Str jsString
| Arr "jsValue list"
| Obj "(jsString \<times> jsValue) list"

datatype jsError = BackendError jsString | SyntaxError | TypeError

text \<open>How a statement ends: normally, or by throwing.\<close>

datatype completion = Normal | Throw jsError

text \<open>
  \<open>defaultUrls\<close> is a module-level object whose five properties refer to five section
  objects. A section object lives in the store at an address and gives each property
  name its value (\<open>Undefined\<close> where there is no such property); a top-level object holds
  the five addresses. No top-level object is written after it is built, so it is a value
  here, and the spread \<open>{ ...defaultUrls }\<close> copies its five references. The store holds
  an object at every address (one without properties where nothing was stored), as an
  assignment to a property of an object cannot fail.
\<close>

type_synonym addr = nat
type_synonym sectionObject = "string \<Rightarrow> jsValue"
type_synonym store = "addr \<Rightarrow> sectionObject"

record urlsObject =
  hero :: addr
  cta :: addr
  navbar :: addr
  pricing :: addr
  dashboard :: addr

definition defaultUrls :: urlsObject where
  "defaultUrls = \<lparr> hero = 0, cta = 1, navbar = 2, pricing = 3, dashboard = 4 \<rparr>"

text \<open>The store when the module has been loaded: the literal of \<open>defaultUrls\<close>.\<close>

definition moduleStore :: store where
  "moduleStore =
     (\<lambda>_ _. Undefined)
       (0 := (\<lambda>_. Undefined)
               (''ctaButton'' := Str (lit ''https://rapatin.id/register''),
                ''pricingButton'' := Str (lit ''#pricing'')),
        1 := (\<lambda>_. Undefined)
               (''registerButton'' := Str (lit ''https://rapatin.id/register'')),
        2 := (\<lambda>_. Undefined)
               (''loginButton'' := Str (lit ''https://rapatin.id/login''),
                ''registerButton'' := Str (lit ''https://rapatin.id/register'')),
        3 := (\<lambda>_. Undefined)
               (''scheduleButton'' := Str (lit ''https://app.rapatin.id/register'')),
        4 := (\<lambda>_. Undefined)
               (''registerButton'' := Str (lit ''https://app.rapatin.id/register'')))"

definition spread :: "urlsObject \<Rightarrow> urlsObject" where
  "spread u = \<lparr> hero = hero u, cta = cta u, navbar = navbar u, pricing = pricing u,
                dashboard = dashboard u \<rparr>"

text \<open>\<open>o.p = v\<close> for the section object at address \<open>a\<close>.\<close>

definition assign :: "addr \<Rightarrow> string \<Rightarrow> jsValue \<Rightarrow> store \<Rightarrow> store" where
  "assign a p v st = st(a := (st a)(p := v))"

text \<open>
  Reading from a value of any kind, as the callback of the \<open>forEach\<close> does. \<open>None\<close>
  stands for the \<open>TypeError\<close> that reading a property of \<open>null\<close> or \<open>undefined\<close>
  throws.
  \<^item> \<open>member v k\<close> is \<open>v.k\<close> for the names \<open>id\<close>, \<open>items\<close> and \<open>url\<close>: the property
    of an object, and \<open>undefined\<close> on an array, a string, a number or a boolean.
  \<^item> \<open>element v k\<close> is \<open>v[k]\<close> for the indices 0 and 1, the only ones the code uses:
    the element of an array, the character of a string, the property \<open>0\<close> or \<open>1\<close> of
    an object.
  \<^item> \<open>lengthAtLeast ge v n\<close> is \<open>v && v.length >= n\<close> for \<open>n\<close> 1 or 2. For an object the
    comparison is made on the value of its property \<open>length\<close>, with the conversions of
    the platform's \<open>>=\<close>, which can throw: that comparison is the parameter \<open>ge\<close>
    (\<open>None\<close> when it throws). A number or a boolean has no \<open>length\<close>, and
    \<open>undefined >= n\<close> is false.
\<close>

definition lookup :: "(jsString \<times> jsValue) list \<Rightarrow> jsString \<Rightarrow> jsValue" where
  "lookup ps k = (case map_of ps k of None \<Rightarrow> Undefined | Some v \<Rightarrow> v)"

fun member :: "jsValue \<Rightarrow> jsString \<Rightarrow> jsValue option" where
  "member Undefined k = None"
| "member Null k = None"
| "member (Obj ps) k = Some (lookup ps k)"
| "member v k = Some Undefined"

definition indexKey :: "nat \<Rightarrow> jsString" where
  "indexKey k = (if k = 0 then lit ''0'' else lit ''1'')"

fun element :: "jsValue \<Rightarrow> nat \<Rightarrow> jsValue option" where
  "element Undefined k = None"
| "element Null k = None"
| "element (Arr xs) k = Some (if k < length xs then xs ! k else Undefined)"
| "element (Str s) k = Some (if k < length s then Str [s ! k] else Undefined)"
| "element (Obj ps) k = Some (lookup ps (indexKey k))"
| "element v k = Some Undefined"

type_synonym comparison = "jsValue \<Rightarrow> nat \<Rightarrow> bool option"

fun lengthAtLeast :: "comparison \<Rightarrow> jsValue \<Rightarrow> nat \<Rightarrow> bool option" where
  "lengthAtLeast ge (Arr xs) n = Some (n \<le> length xs)"
| "lengthAtLeast ge (Str s) n = Some (n \<le> length s)"
| "lengthAtLeast ge (Obj ps) n = ge (lookup ps (lit ''length'')) n"
| "lengthAtLeast ge v n = Some False"

text \<open>\<open>group.items[k].url\<close>\<close>

definition itemUrlOf :: "jsValue \<Rightarrow> nat \<Rightarrow> jsValue option" where
  "itemUrlOf itemsv k =
     (case element itemsv k of None \<Rightarrow> None | Some x \<Rightarrow> member x (lit ''url''))"

text \<open>
  One assignment from item 0, and two assignments from items 0 and 1. The right-hand
  side is read before the assignment is made; when the second read throws, the first
  assignment has been made.
\<close>

definition assignOne :: "addr \<Rightarrow> string \<Rightarrow> jsValue \<Rightarrow> store \<Rightarrow> store \<times> completion" where
  "assignOne a p itemsv st =
     (case itemUrlOf itemsv 0 of
        None \<Rightarrow> (st, Throw TypeError)
      | Some v0 \<Rightarrow> (assign a p v0 st, Normal))"

definition assignTwo ::
  "addr \<Rightarrow> string \<Rightarrow> string \<Rightarrow> jsValue \<Rightarrow> store \<Rightarrow> store \<times> completion" where
  "assignTwo a p0 p1 itemsv st =
     (case itemUrlOf itemsv 0 of
        None \<Rightarrow> (st, Throw TypeError)
      | Some v0 \<Rightarrow>
          (case itemUrlOf itemsv 1 of
             None \<Rightarrow> (assign a p0 v0 st, Throw TypeError)
           | Some v1 \<Rightarrow> (assign a p1 v1 (assign a p0 v0 st), Normal)))"

text \<open>
  The body of the \<open>forEach\<close>, on one element of the array. \<open>group.id\<close> is read first,
  and throws when the element is \<open>null\<close>; \<open>=== '1'\<close> holds of the string \<open>1\<close> alone,
  and only then are the items looked at. The five conditions are tried in order.
\<close>

definition groupTest :: "comparison \<Rightarrow> jsValue \<Rightarrow> jsValue \<Rightarrow> string \<Rightarrow> nat \<Rightarrow> bool option" where
  "groupTest ge idv itemsv k n =
     (if idv = Str (lit k) then lengthAtLeast ge itemsv n else Some False)"

definition overlayGroup ::
  "comparison \<Rightarrow> urlsObject \<Rightarrow> jsValue \<Rightarrow> store \<Rightarrow> store \<times> completion" where
  "overlayGroup ge newUrls grp st =
     (case member grp (lit ''id'') of
        None \<Rightarrow> (st, Throw TypeError)
      | Some idv \<Rightarrow>
          (let itemsv = (case member grp (lit ''items'') of None \<Rightarrow> Undefined | Some v \<Rightarrow> v)
           in case groupTest ge idv itemsv ''1'' 2 of
                None \<Rightarrow> (st, Throw TypeError)
              | Some True \<Rightarrow> assignTwo (hero newUrls) ''ctaButton'' ''pricingButton'' itemsv st
              | Some False \<Rightarrow>
             (case groupTest ge idv itemsv ''2'' 1 of
                None \<Rightarrow> (st, Throw TypeError)
              | Some True \<Rightarrow> assignOne (cta newUrls) ''registerButton'' itemsv st
              | Some False \<Rightarrow>
             (case groupTest ge idv itemsv ''3'' 2 of
                None \<Rightarrow> (st, Throw TypeError)
              | Some True \<Rightarrow> assignTwo (navbar newUrls) ''loginButton'' ''registerButton'' itemsv st
              | Some False \<Rightarrow>
             (case groupTest ge idv itemsv ''4'' 1 of
                None \<Rightarrow> (st, Throw TypeError)
              | Some True \<Rightarrow> assignOne (pricing newUrls) ''scheduleButton'' itemsv st
              | Some False \<Rightarrow>
             (case groupTest ge idv itemsv ''5'' 1 of
                None \<Rightarrow> (st, Throw TypeError)
              | Some True \<Rightarrow> assignOne (dashboard newUrls) ''registerButton'' itemsv st
              | Some False \<Rightarrow> (st, Normal)))))))"

text \<open>\<open>forEach\<close> over the elements of an array: a throw ends it.\<close>

fun forEachGroup ::
  "comparison \<Rightarrow> urlsObject \<Rightarrow> jsValue list \<Rightarrow> store \<Rightarrow> store \<times> completion" where
  "forEachGroup ge newUrls [] st = (st, Normal)"
| "forEachGroup ge newUrls (grp # rest) st =
     (case overlayGroup ge newUrls grp st of
        (st', Normal) \<Rightarrow> forEachGroup ge newUrls rest st'
      | (st', Throw e) \<Rightarrow> (st', Throw e))"

text \<open>The state of the hook: its three \<open>useState\<close> cells.\<close>

record hook =
  urls :: urlsObject
  loading :: bool
  error :: "jsError option"

definition initialHook :: hook where
  "initialHook = \<lparr> urls = defaultUrls, loading = True, error = None \<rparr>"

text \<open>
  \<open>mapUrlsToState\<close>, on whatever it is given: \<open>data.forEach\<close> throws unless \<open>data\<close> is
  an array, and \<open>setUrls\<close> is reached only when the \<open>forEach\<close> has ended normally.
\<close>

definition mapUrlsToState ::
  "comparison \<Rightarrow> jsValue \<Rightarrow> store \<times> hook \<Rightarrow> (store \<times> hook) \<times> completion" where
  "mapUrlsToState ge data x =
     (case x of (st, s) \<Rightarrow>
        (let newUrls = spread defaultUrls
         in case data of
              Arr groups \<Rightarrow>
                (case forEachGroup ge newUrls groups st of
                   (st', Normal) \<Rightarrow> ((st', s\<lparr>urls := newUrls\<rparr>), Normal)
                 | (st', Throw e) \<Rightarrow> ((st', s), Throw e))
            | _ \<Rightarrow> ((st, s), Throw TypeError)))"

text \<open>
  What the awaited select returns: the client reports a failure in \<open>error\<close> and does not
  throw; its data is \<open>null\<close> or an array of rows. \<open>localData\<close> is the item \<open>urlData\<close>
  of local storage. \<open>JSON.parse\<close> belongs to the platform and is the parameter
  \<open>parse\<close>: it throws a \<open>SyntaxError\<close> (\<open>None\<close>) or returns a value. An exception is
  caught by the \<open>catch\<close> block, which stores it in \<open>error\<close>; the \<open>finally\<close> block
  clears \<open>loading\<close> on every path.
\<close>

datatype fetched = Errored jsString | Data "jsValue list option"

definition caught :: "(store \<times> hook) \<times> completion \<Rightarrow> store \<times> hook" where
  "caught r =
     (case r of
        ((st, s), Normal) \<Rightarrow> (st, s)
      | ((st, s), Throw e) \<Rightarrow> (st, s\<lparr>error := Some e\<rparr>))"

definition fetchUrls ::
  "(jsString \<Rightarrow> jsValue option) \<Rightarrow> comparison \<Rightarrow> fetched \<Rightarrow> jsString option \<Rightarrow>
     store \<times> hook \<Rightarrow> store \<times> hook" where
  "fetchUrls parse ge res localData x =
     (case x of (st, s0) \<Rightarrow>
        (let s = s0\<lparr>loading := True\<rparr>;
             (st', s') =
               (case res of
                  Errored e \<Rightarrow>
                    (let s1 = s\<lparr>error := Some (BackendError e)\<rparr>
                     in case localData of
                          None \<Rightarrow> (st, s1)
                        | Some l \<Rightarrow>
                            if l = [] then (st, s1)
                            else (case parse l of
                                    None \<Rightarrow> (st, s1\<lparr>error := Some SyntaxError\<rparr>)
                                  | Some parsedData \<Rightarrow>
                                      caught (mapUrlsToState ge parsedData (st, s1))))
                | Data d \<Rightarrow>
                    (case d of
                       None \<Rightarrow> (st, s)
                     | Some rows \<Rightarrow>
                         if 0 < length rows then caught (mapUrlsToState ge (Arr rows) (st, s))
                         else (st, s)))
         in (st', s'\<lparr>loading := False\<rparr>)))"

text \<open>
  The URLs a top-level object shows: each of its seven nested properties, read through
  the store.
\<close>

record urlValues =
  heroCtaButton :: jsValue
  heroPricingButton :: jsValue
  ctaRegisterButton :: jsValue
  navbarLoginButton :: jsValue
  navbarRegisterButton :: jsValue
  pricingScheduleButton :: jsValue
  dashboardRegisterButton :: jsValue

definition readUrls :: "store \<Rightarrow> urlsObject \<Rightarrow> urlValues" where
  "readUrls st u =
     \<lparr> heroCtaButton = st (hero u) ''ctaButton'',
       heroPricingButton = st (hero u) ''pricingButton'',
       ctaRegisterButton = st (cta u) ''registerButton'',
       navbarLoginButton = st (navbar u) ''loginButton'',
       navbarRegisterButton = st (navbar u) ''registerButton'',
       pricingScheduleButton = st (pricing u) ''scheduleButton'',
       dashboardRegisterButton = st (dashboard u) ''registerButton'' \<rparr>"

text \<open>The values written in the literal of \<open>defaultUrls\<close>.\<close>

definition hardcodedUrls :: urlValues where
  "hardcodedUrls =
     \<lparr> heroCtaButton = Str (lit ''https://rapatin.id/register''),
       heroPricingButton = Str (lit ''#pricing''),
       ctaRegisterButton = Str (lit ''https://rapatin.id/register''),
       navbarLoginButton = Str (lit ''https://rapatin.id/login''),
       navbarRegisterButton = Str (lit ''https://rapatin.id/register''),
       pricingScheduleButton = Str (lit ''https://app.rapatin.id/register''),
       dashboardRegisterButton = Str (lit ''https://app.rapatin.id/register'') \<rparr>"

text \<open>
  A row of the table \<open>urls\<close> at its declared type \<open>Urls\<close>, as \<open>mapUrlsToState\<close> reads
  it: an identifier (the property \<open>id\<close>) and a list of items that may be missing; of an
  item only \<open>url\<close> is read. \<open>ofRow\<close> is such a row as a value, and \<open>asRows\<close> reads a
  value as a list of such rows when it is one: an array of objects whose \<open>id\<close> is a
  string and whose \<open>items\<close> is missing, \<open>null\<close> or an array of objects whose \<open>url\<close> is
  a string. Other properties are allowed.
\<close>

record UrlItem =
  url :: jsString

record Urls =
  groupId :: jsString
  items :: "UrlItem list option"



fun stringOf :: "jsValue \<Rightarrow> jsString option" where
  "stringOf (Str s) = Some s"
| "stringOf v = None"

fun asItem :: "jsValue \<Rightarrow> UrlItem option" where
  "asItem (Obj ps) =
     (case stringOf (lookup ps (lit ''url'')) of None \<Rightarrow> None | Some u \<Rightarrow> Some \<lparr> url = u \<rparr>)"
| "asItem v = None"

fun asItems :: "jsValue \<Rightarrow> UrlItem list option option" where
  "asItems Undefined = Some None"
| "asItems Null = Some None"
| "asItems (Arr xs) =
     (case those (map asItem xs) of None \<Rightarrow> None | Some ys \<Rightarrow> Some (Some ys))"
| "asItems v = None"

fun asRow :: "jsValue \<Rightarrow> Urls option" where
  "asRow (Obj ps) =
     (case stringOf (lookup ps (lit ''id'')) of
        None \<Rightarrow> None
      | Some i \<Rightarrow>
          (case asItems (lookup ps (lit ''items'')) of
             None \<Rightarrow> None
           | Some its \<Rightarrow> Some \<lparr> groupId = i, items = its \<rparr>))"
| "asRow v = None"

fun asRows :: "jsValue \<Rightarrow> Urls list option" where
  "asRows (Arr groups) = those (map asRow groups)"
| "asRows v = None"

definition hasItems :: "Urls \<Rightarrow> nat \<Rightarrow> bool" where
  "hasItems grp n = (case items grp of None \<Rightarrow> False | Some xs \<Rightarrow> n \<le> length xs)"

definition itemUrl :: "Urls \<Rightarrow> nat \<Rightarrow> jsString" where
  "itemUrl grp k = (case items grp of None \<Rightarrow> [] | Some xs \<Rightarrow> url (xs ! k))"

text \<open>
  The overlay as the specification words it, on values and with no store: the groups,
  in order, are laid over a map of URLs, group identifiers \<open>1\<close> to \<open>5\<close> standing for
  the sections hero, cta, navbar, pricing and dashboard; a group with too few items
  changes nothing. \<open>itemUrl\<close> is only used below the length it needs.
\<close>

definition overlayValues :: "Urls \<Rightarrow> urlValues \<Rightarrow> urlValues" where
  "overlayValues grp v =
     (if groupId grp = lit ''1'' \<and> hasItems grp 2 then
        v\<lparr> heroCtaButton := Str (itemUrl grp 0),
           heroPricingButton := Str (itemUrl grp 1) \<rparr>
      else if groupId grp = lit ''2'' \<and> hasItems grp 1 then
        v\<lparr> ctaRegisterButton := Str (itemUrl grp 0) \<rparr>
      else if groupId grp = lit ''3'' \<and> hasItems grp 2 then
        v\<lparr> navbarLoginButton := Str (itemUrl grp 0),
           navbarRegisterButton := Str (itemUrl grp 1) \<rparr>
      else if groupId grp = lit ''4'' \<and> hasItems grp 1 then
        v\<lparr> pricingScheduleButton := Str (itemUrl grp 0) \<rparr>
      else if groupId grp = lit ''5'' \<and> hasItems grp 1 then
        v\<lparr> dashboardRegisterButton := Str (itemUrl grp 0) \<rparr>
      else v)"

definition overlaidWith :: "urlValues \<Rightarrow> Urls list \<Rightarrow> urlValues" where
  "overlaidWith v data = fold overlayValues data v"




section \<open>Observations used in the statements\<close>

text \<open>The column values a request writes, and the slug a handler has written.\<close>

definition written :: "request \<Rightarrow> columns" where
  "written r = (case r of Insert cols \<Rightarrow> cols | Update _ cols \<Rightarrow> cols | Delete _ \<Rightarrow> Map.empty)"

definition slugWritten :: "component \<times> request option \<Rightarrow> jsString option" where
  "slugWritten x = (case snd x of None \<Rightarrow> None | Some r \<Rightarrow> written r ''slug'')"

text \<open>One column of the row with a given identifier.\<close>

definition columnOf :: "table \<Rightarrow> jsString \<Rightarrow> string \<Rightarrow> jsString option" where
  "columnOf t i c = (case rowOf t i of None \<Rightarrow> None | Some cols \<Rightarrow> cols c)"

text \<open>The view state of the component: which form is open, and what it holds.\<close>

definition viewOf :: "component \<Rightarrow> bool \<times> jsString option \<times> BlogPostFormData" where
  "viewOf s = (isCreating s, isEditing s, formData s)"

text \<open>The URLs the hook returns, read through the store.\<close>

definition shown :: "store \<times> hook \<Rightarrow> urlValues" where
  "shown x = readUrls (fst x) (urls (snd x))"

text \<open>
  The cached copy, when one is present: the item of local storage exists, is not the
  empty string, and parses.
\<close>

definition cachedCopy :: "(jsString \<Rightarrow> jsValue option) \<Rightarrow> jsString option \<Rightarrow> jsValue option" where
  "cachedCopy parse localData =
     (case localData of None \<Rightarrow> None | Some l \<Rightarrow> if l = [] then None else parse l)"


section \<open>Concrete inputs\<close>

definition exampleNow :: jsString where
  "exampleNow = lit ''2025-06-01T08:00:00.000Z''"

text \<open>A draft that was published before: it still has its publish time.\<close>

definition exampleTable :: table where
  "exampleTable =
     [(lit ''p1'', [''title'' \<mapsto> lit ''Halo'', ''status'' \<mapsto> lit ''draft'',
                    ''published_at'' \<mapsto> lit ''2024-01-01T00:00:00.000Z'',
                    ''created_at'' \<mapsto> lit ''2023-12-31T00:00:00.000Z''])]"

text \<open>The create form with a title, a content and, in the second one, a slug.\<close>

definition exampleForm :: component where
  "exampleForm =
     initialComponent\<lparr> isCreating := True,
       formData := defaultBlogPostFormData\<lparr> title := lit ''Halo, Dunia!'',
                                             content := lit ''isi'' \<rparr> \<rparr>"

definition exampleFormWithSlug :: component where
  "exampleFormWithSlug =
     exampleForm\<lparr> formData := (formData exampleForm)\<lparr> slug := lit ''Halo Dunia'' \<rparr> \<rparr>"

text \<open>The edit form of post \<open>p1\<close>, published, with no publish time.\<close>

definition exampleEdit :: component where
  "exampleEdit =
     initialComponent\<lparr> isEditing := Some (lit ''p1''),
       formData := defaultBlogPostFormData\<lparr> title := lit ''Halo'', content := lit ''isi'',
                                             status := lit ''published'' \<rparr> \<rparr>"

text \<open>The edit form of post \<open>p1\<close> with a slug typed in.\<close>

definition exampleEditWithSlug :: component where
  "exampleEditWithSlug =
     exampleEdit\<lparr> formData := (formData exampleEdit)\<lparr> slug := lit ''Halo Lama'' \<rparr> \<rparr>"

text \<open>The create form with nothing typed, and with a title of punctuation only.\<close>

definition emptyForm :: component where
  "emptyForm = initialComponent\<lparr> isCreating := True \<rparr>"

definition punctuationForm :: component where
  "punctuationForm =
     initialComponent\<lparr> isCreating := True,
       formData := defaultBlogPostFormData\<lparr> title := lit ''?!'', content := lit ''isi'' \<rparr> \<rparr>"

text \<open>The create form whose title is the Kelvin sign U+212A.\<close>

definition kelvinForm :: component where
  "kelvinForm =
     initialComponent\<lparr> isCreating := True,
       formData := defaultBlogPostFormData\<lparr> title := [0x212A], content := lit ''isi'' \<rparr> \<rparr>"

text \<open>
  Rows of the table \<open>urls\<close> that name another address for the CTA section, and the
  same rows as a parsed value, with the further properties a stored row has.
\<close>

definition exampleRows :: "Urls list" where
  "exampleRows =
     [\<lparr> groupId = lit ''2'', items = Some [\<lparr> url = lit ''https://example.org/join'' \<rparr>] \<rparr>]"

definition exampleCached :: jsValue where
  "exampleCached =
     Arr [Obj [(lit ''id'', Str (lit ''2'')),
               (lit ''title'', Str (lit ''CTA'')),
               (lit ''items'',
                  Arr [Obj [(lit ''label'', Str (lit ''Daftar'')),
                            (lit ''url'', Str (lit ''https://example.org/join''))]])]]"

definition exampleParse :: "jsString \<Rightarrow> jsValue option" where
  "exampleParse l = (if l = lit ''rows'' then Some exampleCached else None)"

text \<open>
  An instance of the comparison \<open>v >= n\<close>. It agrees with the platform on numbers,
  booleans, \<open>null\<close> and \<open>undefined\<close>; strings, arrays and objects, which the platform
  converts through their text, are outside it. No input below has an object for items,
  so it is not consulted there.
\<close>

definition geNumber :: comparison where
  "geNumber v n =
     (case v of
        Num q \<Rightarrow> Some (of_nat n \<le> q)
      | Bool b \<Rightarrow> Some (n \<le> (if b then 1 else 0))
      | Null \<Rightarrow> Some (n = 0)
      | _ \<Rightarrow> Some False)"

text \<open>
  Two cached copies that are not well-formed rows: an item without \<open>url\<close>, and a
  \<open>null\<close> for the second item of the hero group.
\<close>

definition exampleNoUrl :: jsValue where
  "exampleNoUrl =
     Arr [Obj [(lit ''id'', Str (lit ''2'')),
               (lit ''items'', Arr [Obj [(lit ''label'', Str (lit ''Daftar''))]])]]"

definition exampleNullItem :: jsValue where
  "exampleNullItem =
     Arr [Obj [(lit ''id'', Str (lit ''1'')),
               (lit ''items'', Arr [Obj [(lit ''url'', Str (lit ''https://example.org/a''))],
                                    Null])]]"


section \<open>Lemmas: strings and evaluation\<close>

lemmas string_eval = lit_def deriveSlug_def stripNonWord_def toLowerCaseLatin1_def
  toLowerCaseUnit_def isWordChar_def isWhiteSpace_def finalSlug_def

lemmas example_eval = initialComponent_def defaultBlogPostFormData_def exampleForm_def
  exampleFormWithSlug_def exampleEdit_def exampleEditWithSlug_def emptyForm_def
  punctuationForm_def kelvinForm_def exampleNow_def

lemmas handler_eval = handleCreatePost_def handleUpdatePost_def createPostMutationFn_def
  updatePostMutationFn_def written_def slugWritten_def showToast_def

lemma hyphen_class: "\<not> isWhiteSpace 0x2D" "\<not> isWordChar 0x2D"
  by (simp_all add: isWhiteSpace_def isWordChar_def)

lemma set_hyphenateWhitespace:
  "c \<in> set (hyphenateWhitespace s) \<Longrightarrow> c = 0x2D \<or> (c \<in> set s \<and> \<not> isWhiteSpace c)"
proof (induction s rule: hyphenateWhitespace.induct)
  case 1
  then show ?case by simp
next
  case (2 d ds)
  show ?case
  proof (cases "isWhiteSpace d")
    case True
    with 2 show ?thesis by (auto dest: set_dropWhileD)
  next
    case False
    with 2 show ?thesis by auto
  qed
qed

lemma set_stripNonWord: "c \<in> set (stripNonWord s) \<Longrightarrow> isWordChar c \<or> isWhiteSpace c"
  by (simp add: stripNonWord_def)

lemma stripNonWord_nothing_left:
  "\<forall>c\<in>set s. \<not> isWordChar c \<and> \<not> isWhiteSpace c \<Longrightarrow> stripNonWord s = []"
  by (auto simp: stripNonWord_def filter_empty_conv)


section \<open>Lemmas: the overlay and the store\<close>

lemma spread_same: "spread u = u"
  by (simp add: spread_def)

lemma those_map_Some:
  "those (map f xs) = Some ys \<Longrightarrow> length ys = length xs \<and> (\<forall>k<length xs. f (xs ! k) = Some (ys ! k))"
proof (induction xs arbitrary: ys)
  case Nil
  then show ?case by simp
next
  case (Cons x xs)
  then obtain y ys' where y: "f x = Some y" and ys': "those (map f xs) = Some ys'" and e: "ys = y # ys'"
    by (auto split: option.splits)
  from Cons.IH [OF ys'] y e show ?case
    by (auto simp: nth_Cons split: nat.splits)
qed

lemma stringOf_SomeD: "stringOf v = Some u \<Longrightarrow> v = Str u"
  by (cases v) simp_all

lemma asItem_url: "asItem x = Some y \<Longrightarrow> member x (lit ''url'') = Some (Str (url y))"
  by (cases x) (auto split: option.splits dest: stringOf_SomeD)

lemma itemUrlOf_Arr:
  assumes "those (map asItem xs) = Some ys" "k < length xs"
  shows "itemUrlOf (Arr xs) k = Some (Str (url (ys ! k)))"
proof -
  from those_map_Some [OF assms(1)] assms(2) have "asItem (xs ! k) = Some (ys ! k)"
    by simp
  then show ?thesis
    using assms(2) by (simp add: itemUrlOf_def asItem_url)
qed

lemma readUrls_assign:
  "readUrls (assign 0 ''ctaButton'' v st) defaultUrls = (readUrls st defaultUrls)\<lparr>heroCtaButton := v\<rparr>"
  "readUrls (assign 0 ''pricingButton'' v st) defaultUrls = (readUrls st defaultUrls)\<lparr>heroPricingButton := v\<rparr>"
  "readUrls (assign (Suc 0) ''registerButton'' v st) defaultUrls = (readUrls st defaultUrls)\<lparr>ctaRegisterButton := v\<rparr>"
  "readUrls (assign 2 ''loginButton'' v st) defaultUrls = (readUrls st defaultUrls)\<lparr>navbarLoginButton := v\<rparr>"
  "readUrls (assign 2 ''registerButton'' v st) defaultUrls = (readUrls st defaultUrls)\<lparr>navbarRegisterButton := v\<rparr>"
  "readUrls (assign 3 ''scheduleButton'' v st) defaultUrls = (readUrls st defaultUrls)\<lparr>pricingScheduleButton := v\<rparr>"
  "readUrls (assign 4 ''registerButton'' v st) defaultUrls = (readUrls st defaultUrls)\<lparr>dashboardRegisterButton := v\<rparr>"
  by (simp_all add: readUrls_def assign_def defaultUrls_def)

lemma defaultUrls_sel:
  "hero defaultUrls = 0" "cta defaultUrls = 1" "navbar defaultUrls = 2"
  "pricing defaultUrls = 3" "dashboard defaultUrls = 4"
  by (simp_all add: defaultUrls_def)

lemma overlayGroup_tests:
  assumes "\<And>k n. groupTest ge idv itemsv k n = Some (t k n)"
    and "member grp (lit ''id'') = Some idv" and "member grp (lit ''items'') = Some itemsv"
  shows "overlayGroup ge newUrls grp st =
     (if t ''1'' 2 then assignTwo (hero newUrls) ''ctaButton'' ''pricingButton'' itemsv st
      else if t ''2'' 1 then assignOne (cta newUrls) ''registerButton'' itemsv st
      else if t ''3'' 2 then assignTwo (navbar newUrls) ''loginButton'' ''registerButton'' itemsv st
      else if t ''4'' 1 then assignOne (pricing newUrls) ''scheduleButton'' itemsv st
      else if t ''5'' 1 then assignOne (dashboard newUrls) ''registerButton'' itemsv st
      else (st, Normal))"
  unfolding overlayGroup_def by (simp add: assms Let_def)

lemma asItems_cases:
  assumes "asItems v = Some its"
  shows "case its of
           None \<Rightarrow> v = Undefined \<or> v = Null
         | Some ys \<Rightarrow> \<exists>xs. v = Arr xs \<and> those (map asItem xs) = Some ys"
proof (cases v)
  case (Arr xs)
  with assms obtain ys where "those (map asItem xs) = Some ys" "its = Some ys"
    by (cases "those (map asItem xs)") auto
  with Arr show ?thesis by simp
qed (use assms in auto)

lemma asRow_cases:
  assumes "asRow g = Some r"
  shows "\<exists>ps. g = Obj ps \<and> lookup ps (lit ''id'') = Str (groupId r) \<and>
           asItems (lookup ps (lit ''items'')) = Some (items r)"
  using assms by (cases g) (auto split: option.splits dest: stringOf_SomeD)

lemma overlayGroup_row:
  assumes "asRow g = Some r"
  shows "snd (overlayGroup ge defaultUrls g st) = Normal \<and>
         readUrls (fst (overlayGroup ge defaultUrls g st)) defaultUrls =
           overlayValues r (readUrls st defaultUrls)"
proof -
  from asRow_cases [OF assms] obtain ps where g: "g = Obj ps"
    and i: "lookup ps (lit ''id'') = Str (groupId r)"
    and its: "asItems (lookup ps (lit ''items'')) = Some (items r)"
    by blast
  have m: "member g (lit ''id'') = Some (Str (groupId r))"
    "member g (lit ''items'') = Some (lookup ps (lit ''items''))"
    using g i by simp_all
  show ?thesis
  proof (cases "items r")
    case None
    from asItems_cases [OF its] None
    have "lengthAtLeast ge (lookup ps (lit ''items'')) n = Some False" for n
      by auto
    then have t: "groupTest ge (Str (groupId r)) (lookup ps (lit ''items'')) k n = Some False" for k n
      by (simp add: groupTest_def)
    from None show ?thesis
      by (simp add: overlayGroup_tests [OF t m] overlayValues_def hasItems_def)
  next
    case (Some ys)
    from asItems_cases [OF its] Some obtain xs where xs: "lookup ps (lit ''items'') = Arr xs"
      and t: "those (map asItem xs) = Some ys"
      by auto
    from those_map_Some [OF t] have len: "length ys = length xs" by simp
    have u: "k < length xs \<Longrightarrow> itemUrlOf (Arr xs) k = Some (Str (url (ys ! k)))" for k
      using itemUrlOf_Arr [OF t] by simp
    define c where "c k n \<longleftrightarrow> groupId r = lit k \<and> hasItems r n" for k n
    have A1: "assignOne a p (Arr xs) st' = (assign a p (Str (itemUrl r 0)) st', Normal)"
      if "c ''2'' 1 \<or> c ''4'' 1 \<or> c ''5'' 1" for a p st'
    proof -
      from that have "hasItems r 1" by (auto simp: c_def)
      with Some len have "0 < length xs" by (cases xs) (simp_all add: hasItems_def)
      from u [OF this] Some show ?thesis by (simp add: assignOne_def itemUrl_def)
    qed
    have A2: "assignTwo a p0 p1 (Arr xs) st' =
                (assign a p1 (Str (itemUrl r 1)) (assign a p0 (Str (itemUrl r 0)) st'), Normal)"
      if "c ''1'' 2 \<or> c ''3'' 2" for a p0 p1 st'
    proof -
      from that have "hasItems r 2" by (auto simp: c_def)
      with Some len have "2 \<le> length xs" by (simp add: hasItems_def)
      then have "0 < length xs" "1 < length xs" by arith+
      from u [OF this(1)] u [OF this(2)] Some show ?thesis
        by (simp add: assignTwo_def itemUrl_def)
    qed
    have gt: "groupTest ge (Str (groupId r)) (lookup ps (lit ''items'')) k n = Some (c k n)" for k n
      using xs Some len by (simp add: groupTest_def hasItems_def c_def)
    have ov: "overlayValues r v =
      (if c ''1'' 2 then
         v\<lparr> heroCtaButton := Str (itemUrl r 0), heroPricingButton := Str (itemUrl r 1) \<rparr>
       else if c ''2'' 1 then v\<lparr> ctaRegisterButton := Str (itemUrl r 0) \<rparr>
       else if c ''3'' 2 then
         v\<lparr> navbarLoginButton := Str (itemUrl r 0), navbarRegisterButton := Str (itemUrl r 1) \<rparr>
       else if c ''4'' 1 then v\<lparr> pricingScheduleButton := Str (itemUrl r 0) \<rparr>
       else if c ''5'' 1 then v\<lparr> dashboardRegisterButton := Str (itemUrl r 0) \<rparr>
       else v)" for v
      by (simp only: overlayValues_def c_def)
    note og = overlayGroup_tests [OF gt m, of defaultUrls st, unfolded xs defaultUrls_sel]
    consider "c ''1'' 2" | "\<not> c ''1'' 2" "c ''2'' 1" | "\<not> c ''1'' 2" "\<not> c ''2'' 1" "c ''3'' 2"
      | "\<not> c ''1'' 2" "\<not> c ''2'' 1" "\<not> c ''3'' 2" "c ''4'' 1"
      | "\<not> c ''1'' 2" "\<not> c ''2'' 1" "\<not> c ''3'' 2" "\<not> c ''4'' 1" "c ''5'' 1"
      | "\<not> c ''1'' 2" "\<not> c ''2'' 1" "\<not> c ''3'' 2" "\<not> c ''4'' 1" "\<not> c ''5'' 1"
      by blast
    then show ?thesis
    proof cases
      case 1
      then show ?thesis by (simp add: og ov A2 readUrls_assign)
    next
      case 2
      then show ?thesis by (simp add: og ov A1 readUrls_assign)
    next
      case 3
      then show ?thesis by (simp add: og ov A2 readUrls_assign)
    next
      case 4
      then show ?thesis by (simp add: og ov A1 readUrls_assign)
    next
      case 5
      then show ?thesis by (simp add: og ov A1 readUrls_assign)
    next
      case 6
      then show ?thesis by (simp add: og ov)
    qed
  qed
qed

lemma forEachGroup_rows:
  "those (map asRow gs) = Some rs \<Longrightarrow>
   snd (forEachGroup ge defaultUrls gs st) = Normal \<and>
   readUrls (fst (forEachGroup ge defaultUrls gs st)) defaultUrls =
     overlaidWith (readUrls st defaultUrls) rs"
proof (induction gs arbitrary: rs st)
  case Nil
  then show ?case by (simp add: overlaidWith_def)
next
  case (Cons g gs)
  then obtain r rs' where r: "asRow g = Some r" and rs': "those (map asRow gs) = Some rs'"
    and e: "rs = r # rs'"
    by (auto split: option.splits)
  obtain st1 c1 where o: "overlayGroup ge defaultUrls g st = (st1, c1)"
    by (cases "overlayGroup ge defaultUrls g st")
  from overlayGroup_row [OF r, of ge st] o
  have c1: "c1 = Normal" and v1: "readUrls st1 defaultUrls = overlayValues r (readUrls st defaultUrls)"
    by simp_all
  from Cons.IH [OF rs', of st1] o c1 v1 e show ?case
    by (simp add: overlaidWith_def)
qed

lemma mapUrlsToState_rows:
  assumes "asRows d = Some rs"
  shows "snd (mapUrlsToState ge d (st, s)) = Normal \<and>
         snd (fst (mapUrlsToState ge d (st, s))) = s\<lparr>urls := defaultUrls\<rparr> \<and>
         readUrls (fst (fst (mapUrlsToState ge d (st, s)))) defaultUrls =
           overlaidWith (readUrls st defaultUrls) rs"
proof -
  from assms obtain gs where d: "d = Arr gs" and t: "those (map asRow gs) = Some rs"
    by (cases d) simp_all
  obtain st1 c1 where f: "forEachGroup ge defaultUrls gs st = (st1, c1)"
    by (cases "forEachGroup ge defaultUrls gs st")
  from forEachGroup_rows [OF t, of ge st] f d show ?thesis
    by (simp add: mapUrlsToState_def spread_same)
qed






lemma readUrls_moduleStore: "readUrls moduleStore defaultUrls = hardcodedUrls"
  by (simp add: readUrls_def moduleStore_def defaultUrls_def hardcodedUrls_def)




lemma shown_mapUrlsToState:
  assumes "asRows d = Some rs"
  shows "shown (fst (mapUrlsToState ge d (st, s))) = overlaidWith (readUrls st defaultUrls) rs"
  using mapUrlsToState_rows [OF assms, of ge st s]
  by (simp add: shown_def)


lemma fetch_failed_uncached:
  assumes "cachedCopy parse localData = None"
  shows "fst (fetchUrls parse ge (Errored e) localData (st, s)) = st"
    and "urls (snd (fetchUrls parse ge (Errored e) localData (st, s))) = urls s"
  using assms
  by (simp_all add: fetchUrls_def cachedCopy_def split: option.splits if_splits)


lemma fetch_no_data:
  "fetchUrls parse ge (Data None) localData (st, s) = (st, s\<lparr>loading := False\<rparr>)"
  by (simp add: fetchUrls_def)


lemma asRows_exampleCached: "asRows exampleCached = Some exampleRows"
  by (simp add: exampleCached_def exampleRows_def lookup_def lit_def)

lemma overlaid_example:
  "overlaidWith hardcodedUrls exampleRows =
     hardcodedUrls\<lparr> ctaRegisterButton := Str (lit ''https://example.org/join'') \<rparr>"
  by (simp add: overlaidWith_def overlayValues_def exampleRows_def hasItems_def itemUrl_def lit_def)


text \<open>
  What the hook does with a cached copy that is not a list of well-formed rows: an item
  that does not parse leaves everything as it was; an item without \<open>url\<close> puts
  \<open>undefined\<close> in the map; a \<open>null\<close> item throws after the assignment before it was
  made, and the state of the hook is not set.
\<close>

lemma unparsable_item_keeps_defaults:
  "fetchUrls exampleParse geNumber (Errored (lit ''offline'')) (Some (lit ''x''))
     (moduleStore, initialHook) = (moduleStore, initialHook\<lparr>error := Some SyntaxError, loading := False\<rparr>)"
  by (simp add: fetchUrls_def exampleParse_def lit_def)

lemma overlay_item_without_url:
  "snd (mapUrlsToState geNumber exampleNoUrl (moduleStore, initialHook)) = Normal \<and>
   ctaRegisterButton (shown (fst (mapUrlsToState geNumber exampleNoUrl (moduleStore, initialHook))))
     = Undefined"
  by (simp add: mapUrlsToState_def exampleNoUrl_def overlayGroup_def groupTest_def assignOne_def
        itemUrlOf_def lookup_def spread_def defaultUrls_def shown_def readUrls_def assign_def lit_def)

lemma overlay_null_item:
  "snd (mapUrlsToState geNumber exampleNullItem (moduleStore, initialHook)) = Throw TypeError \<and>
   snd (fst (mapUrlsToState geNumber exampleNullItem (moduleStore, initialHook))) = initialHook \<and>
   heroCtaButton (shown (fst (mapUrlsToState geNumber exampleNullItem (moduleStore, initialHook))))
     = Str (lit ''https://example.org/a'') \<and>
   heroPricingButton (shown (fst (mapUrlsToState geNumber exampleNullItem (moduleStore, initialHook))))
     = Str (lit ''#pricing'')"
  by (simp add: mapUrlsToState_def exampleNullItem_def overlayGroup_def groupTest_def assignTwo_def
        itemUrlOf_def lookup_def spread_def defaultUrls_def shown_def readUrls_def assign_def
        initialHook_def moduleStore_def lit_def)


section \<open>Lemmas: the backend table\<close>

lemma rowOf_dbUpdate:
  "rowOf (dbUpdate i cols t) i = map_option (\<lambda>c. c ++ cols) (rowOf t i)"
  unfolding rowOf_def dbUpdate_def
  by (induction t) auto


section \<open>Publishing\<close>

text \<open>
  What the publish path does, for every post: the handler passes the identifier alone, the
  request writes exactly the two columns \<open>status\<close> and \<open>published_at\<close>, and the row
  with that identifier has both overwritten.
\<close>

lemma publish_request:
  "snd (handlePublishPost now i s) = Some (publishPostMutationFn now i) \<and>
   written (publishPostMutationFn now i) =
     [''status'' \<mapsto> lit ''published'', ''published_at'' \<mapsto> now] \<and>
   rowOf (serve assigned (publishPostMutationFn now i) t) i =
     map_option (\<lambda>c. c(''status'' \<mapsto> lit ''published'', ''published_at'' \<mapsto> now)) (rowOf t i)"
  by (simp add: handlePublishPost_def publishPostMutationFn_def rowOf_dbUpdate written_def)

text \<open>
  C1: the publish operation is to set the status to \<open>published\<close> and to assign the
  current time as publish time only when the post has none, a post that has one keeping
  it. The code does not keep it. The post \<open>p1\<close> of \<open>exampleTable\<close> is a draft with the
  publish time 2024-01-01 (a post that was published and set back to draft keeps its
  publish time through the update path); publishing it on 2025-06-01 replaces that
  publish time.
\<close>

theorem publish_overwrites_publish_time:
  "columnOf exampleTable (lit ''p1'') ''published_at'' = Some (lit ''2024-01-01T00:00:00.000Z'') \<and>
   columnOf (serve ([], []) (publishPostMutationFn exampleNow (lit ''p1'')) exampleTable)
      (lit ''p1'') ''published_at'' = Some (lit ''2025-06-01T08:00:00.000Z'') \<and>
   lit ''2024-01-01T00:00:00.000Z'' \<noteq> lit ''2025-06-01T08:00:00.000Z''"
  by (simp add: columnOf_def rowOf_def exampleTable_def publishPostMutationFn_def dbUpdate_def
        exampleNow_def lit_def)

text \<open>
  The update path at the same post: with the form holding the post's publish time and
  the status set to \<open>published\<close>, the publish time written is the one the post had.
\<close>

lemma update_keeps_publish_time:
  "written (updatePostMutationFn exampleNow
      (lit ''p1'', defaultBlogPostFormData\<lparr> title := lit ''Halo'', content := lit ''isi'',
         status := lit ''published'', publishedAt := lit ''2024-01-01T00:00:00.000Z'' \<rparr>))
     ''published_at'' = Some (lit ''2024-01-01T00:00:00.000Z'')"
  by (simp add: written_def updatePostMutationFn_def defaultBlogPostFormData_def lit_def)


section \<open>The derived slug\<close>

text \<open>
  C2, at a concrete input: the slug derived from the title \<open>Halo, Dunia!\<close> contains a
  hyphen, and the hyphen is not a word character.
\<close>

theorem derived_slug_has_hyphen:
  "0x2D \<in> set (finalSlug toLowerCaseLatin1 (formData exampleForm)) \<and>
   slug (formData exampleForm) = [] \<and> \<not> isWordChar 0x2D"
  by (simp add: string_eval example_eval)

text \<open>
  C2, as the code has it: for every title and every lower-casing function, each character
  of the slug derived when the user-supplied slug is empty is a word character or a
  hyphen, and none is white space.
\<close>

theorem derived_slug_chars:
  "slug fd = [] \<Longrightarrow> c \<in> set (finalSlug lower fd) \<Longrightarrow>
     (isWordChar c \<or> c = 0x2D) \<and> \<not> isWhiteSpace c"
  using set_hyphenateWhitespace [of c "stripNonWord (lower (title fd))"]
        set_stripNonWord [of c "lower (title fd)"] hyphen_class
  by (auto simp: finalSlug_def deriveSlug_def)

theorem derived_slug_chars_witness:
  "slug (formData exampleForm) = [] \<and>
   0x68 \<in> set (finalSlug toLowerCaseLatin1 (formData exampleForm)) \<and>
   (isWordChar 0x68 \<or> (0x68 :: codeUnit) = 0x2D) \<and> \<not> isWhiteSpace 0x68"
proof -
  have h1: "slug (formData exampleForm) = []"
    by (simp add: example_eval)
  have h2: "0x68 \<in> set (finalSlug toLowerCaseLatin1 (formData exampleForm))"
    by (simp add: string_eval example_eval)
  from derived_slug_chars [OF h1 h2] h1 h2 show ?thesis by simp
qed


section \<open>Validation before a save\<close>

text \<open>
  C3: for every save, create or update, whose form data has an empty title or an empty
  content, the save is rejected: the error notification is shown, no request is made
  (neither insert nor update) and nothing else of the state changes. An update is a save
  of the post being edited: the update handler is called from the edit form alone, which
  is rendered while \<open>isEditing\<close> holds the identifier of a post.
\<close>

theorem empty_save_rejected:
  assumes "title (formData s) = [] \<or> content (formData s) = []"
  shows "handleCreatePost lower now s = (s\<lparr>toasts := toasts s @ [validationToast]\<rparr>, None) \<and>
         (isEditing s \<noteq> None \<and> isEditing s \<noteq> Some [] \<longrightarrow>
            handleUpdatePost lower now s = (s\<lparr>toasts := toasts s @ [validationToast]\<rparr>, None))"
  using assms
  by (auto simp: handleCreatePost_def handleUpdatePost_def showToast_def split: option.splits)

theorem empty_save_rejected_witness:
  "(title (formData emptyForm) = [] \<or> content (formData emptyForm) = []) \<and>
   handleCreatePost toLowerCaseLatin1 exampleNow emptyForm =
     (emptyForm\<lparr>toasts := [validationToast]\<rparr>, None) \<and>
   isEditing (emptyForm\<lparr>isCreating := False, isEditing := Some (lit ''p1'')\<rparr>) \<noteq> None \<and>
   isEditing (emptyForm\<lparr>isCreating := False, isEditing := Some (lit ''p1'')\<rparr>) \<noteq> Some [] \<and>
   handleUpdatePost toLowerCaseLatin1 exampleNow
       (emptyForm\<lparr>isCreating := False, isEditing := Some (lit ''p1'')\<rparr>) =
     (emptyForm\<lparr>isCreating := False, isEditing := Some (lit ''p1''),
                 toasts := [validationToast]\<rparr>, None)"
proof -
  let ?edit = "emptyForm\<lparr>isCreating := False, isEditing := Some (lit ''p1'')\<rparr>"
  have h: "title (formData emptyForm) = [] \<or> content (formData emptyForm) = []"
    by (simp add: example_eval)
  have h': "title (formData ?edit) = [] \<or> content (formData ?edit) = []"
    by (simp add: example_eval)
  have e: "isEditing ?edit \<noteq> None \<and> isEditing ?edit \<noteq> Some []"
    by (simp add: lit_def)
  from empty_save_rejected [OF h, of toLowerCaseLatin1 exampleNow]
       empty_save_rejected [OF h', of toLowerCaseLatin1 exampleNow] h e
  show ?thesis by (simp add: example_eval lit_def)
qed


section \<open>The publish time an update writes\<close>

text \<open>
  C4: for every update whose form status is \<open>published\<close> and whose form publish time
  is empty, the \<open>published_at\<close> written is the current time; for every other update it
  is the publish time of the form, unchanged. This holds of the mutation function, and
  of every request the update handler makes.
\<close>

theorem update_published_at:
  "written (updatePostMutationFn now (i, postData)) ''published_at'' =
     Some (if status postData = lit ''published'' \<and> publishedAt postData = []
           then now else publishedAt postData) \<and>
   (snd (handleUpdatePost lower now s) = Some r \<longrightarrow>
      written r ''published_at'' =
        Some (if status (formData s) = lit ''published'' \<and> publishedAt (formData s) = []
              then now else publishedAt (formData s)))"
  by (auto simp: handler_eval split: option.splits if_splits)

theorem update_published_at_witness:
  "snd (handleUpdatePost toLowerCaseLatin1 exampleNow exampleEdit) =
     Some (updatePostMutationFn exampleNow
             (lit ''p1'', (formData exampleEdit)\<lparr>slug := lit ''halo''\<rparr>)) \<and>
   written (updatePostMutationFn exampleNow
             (lit ''p1'', (formData exampleEdit)\<lparr>slug := lit ''halo''\<rparr>)) ''published_at'' =
     Some exampleNow"
proof -
  have h: "snd (handleUpdatePost toLowerCaseLatin1 exampleNow exampleEdit) =
     Some (updatePostMutationFn exampleNow
             (lit ''p1'', (formData exampleEdit)\<lparr>slug := lit ''halo''\<rparr>))"
    by (simp add: handleUpdatePost_def string_eval example_eval)
  have e: "status (formData exampleEdit) = lit ''published'' \<and>
           publishedAt (formData exampleEdit) = []"
    by (simp add: example_eval)
  from update_published_at [of exampleNow "lit ''p1''" "formData exampleEdit" toLowerCaseLatin1
      exampleEdit "updatePostMutationFn exampleNow
             (lit ''p1'', (formData exampleEdit)\<lparr>slug := lit ''halo''\<rparr>)"] h e
  show ?thesis by simp
qed


section \<open>Failed mutations\<close>

text \<open>
  C7: when a mutation fails, whichever of create, update, delete and publish it is, the
  failure is one more notification and nothing else: \<open>isCreating\<close>, \<open>isEditing\<close> and
  the form data are as they were, and no query is invalidated. Making the request did
  not change them either.
\<close>

theorem failed_mutation_keeps_view:
  "viewOf (settle categories m (Failed msg) s) = viewOf s \<and>
   toasts (settle categories m (Failed msg) s) = toasts s @ [errorToast msg] \<and>
   invalidations (settle categories m (Failed msg) s) = invalidations s \<and>
   viewOf (fst (handleCreatePost lower now s)) = viewOf s \<and>
   viewOf (fst (handleUpdatePost lower now s)) = viewOf s \<and>
   viewOf (fst (handleDeletePost confirmed i s)) = viewOf s \<and>
   viewOf (fst (handlePublishPost now i s)) = viewOf s"
  by (cases m)
     (simp_all add: settle_def showToast_def viewOf_def handleCreatePost_def handleUpdatePost_def
        handleDeletePost_def handlePublishPost_def split: option.splits)


section \<open>The slug a save writes\<close>

text \<open>
  C8: for every save, create or update, whose form data has a non-empty slug, the slug
  written is that slug, character for character; the derivation from the title is
  applied only when the slug of the form is empty. A save that passes the validation
  makes its request (an insert, or an update of the post being edited), and the slug
  among its columns is the one stated.
\<close>

theorem slug_written:
  assumes "title (formData s) \<noteq> []" "content (formData s) \<noteq> []"
  shows "(\<exists>cols. snd (handleCreatePost lower now s) = Some (Insert cols) \<and>
            cols ''slug'' =
              Some (if slug (formData s) = [] then deriveSlug lower (title (formData s))
                    else slug (formData s))) \<and>
         (\<forall>i. isEditing s = Some i \<and> i \<noteq> [] \<longrightarrow>
            (\<exists>cols. snd (handleUpdatePost lower now s) = Some (Update i cols) \<and>
               cols ''slug'' =
                 Some (if slug (formData s) = [] then deriveSlug lower (title (formData s))
                       else slug (formData s))))"
  using assms
  by (simp add: handleCreatePost_def handleUpdatePost_def createPostMutationFn_def
        updatePostMutationFn_def finalSlug_def)

theorem slug_written_witness:
  "title (formData exampleFormWithSlug) \<noteq> [] \<and> content (formData exampleFormWithSlug) \<noteq> [] \<and>
   slug (formData exampleFormWithSlug) = lit ''Halo Dunia'' \<and>
   slugWritten (handleCreatePost toLowerCaseLatin1 exampleNow exampleFormWithSlug) =
     Some (lit ''Halo Dunia'') \<and>
   title (formData exampleEditWithSlug) \<noteq> [] \<and> content (formData exampleEditWithSlug) \<noteq> [] \<and>
   isEditing exampleEditWithSlug = Some (lit ''p1'') \<and> lit ''p1'' \<noteq> [] \<and>
   slug (formData exampleEditWithSlug) = lit ''Halo Lama'' \<and>
   slugWritten (handleUpdatePost toLowerCaseLatin1 exampleNow exampleEditWithSlug) =
     Some (lit ''Halo Lama'')"
proof -
  have c: "title (formData exampleFormWithSlug) \<noteq> []" "content (formData exampleFormWithSlug) \<noteq> []"
    and cs: "slug (formData exampleFormWithSlug) = lit ''Halo Dunia''"
    by (simp_all add: example_eval lit_def)
  have u: "title (formData exampleEditWithSlug) \<noteq> []" "content (formData exampleEditWithSlug) \<noteq> []"
    and us: "slug (formData exampleEditWithSlug) = lit ''Halo Lama''"
    and ui: "isEditing exampleEditWithSlug = Some (lit ''p1'')" "lit ''p1'' \<noteq> []"
    by (simp_all add: example_eval lit_def)
  from slug_written [OF c, of toLowerCaseLatin1 exampleNow] cs
  have 1: "slugWritten (handleCreatePost toLowerCaseLatin1 exampleNow exampleFormWithSlug) =
     Some (lit ''Halo Dunia'')"
    by (auto simp: slugWritten_def written_def lit_def)
  from slug_written [OF u, of toLowerCaseLatin1 exampleNow] us ui
  have 2: "slugWritten (handleUpdatePost toLowerCaseLatin1 exampleNow exampleEditWithSlug) =
     Some (lit ''Halo Lama'')"
    by (auto simp: slugWritten_def written_def lit_def)
  from 1 2 c cs u us ui show ?thesis by simp
qed


text \<open>
  C9, at a concrete input: the title that is the Kelvin sign alone consists of one
  character that is neither a word character nor white space, the content is not empty
  and the slug is empty; the slug written is \<open>k\<close>, not the empty string.
\<close>

theorem kelvin_title_slug:
  "title (formData kelvinForm) = [0x212A] \<and> \<not> isWordChar 0x212A \<and> \<not> isWhiteSpace 0x212A \<and>
   content (formData kelvinForm) \<noteq> [] \<and> slug (formData kelvinForm) = [] \<and>
   slugWritten (handleCreatePost toLowerCaseLatin1 exampleNow kelvinForm) = Some (lit ''k'')"
  by (simp add: handler_eval string_eval example_eval)

text \<open>
  C9, as the code has it: for form data with a non-empty title, a non-empty content and
  an empty slug, where the title in lower case consists only of characters that are
  neither word characters nor white space, the create validation passes (the state is
  left as it was and a request is made) and the slug written is the empty string.
\<close>

theorem punctuation_title_empty_slug:
  assumes "title (formData s) \<noteq> []" "content (formData s) \<noteq> []" "slug (formData s) = []"
    and "\<forall>c\<in>set (lower (title (formData s))). \<not> isWordChar c \<and> \<not> isWhiteSpace c"
  shows "fst (handleCreatePost lower now s) = s \<and>
         slugWritten (handleCreatePost lower now s) = Some []"
  using assms stripNonWord_nothing_left [of "lower (title (formData s))"]
  by (simp add: handler_eval finalSlug_def deriveSlug_def)

theorem punctuation_title_empty_slug_witness:
  "title (formData punctuationForm) \<noteq> [] \<and> content (formData punctuationForm) \<noteq> [] \<and>
   slug (formData punctuationForm) = [] \<and>
   toLowerCaseLatin1 (title (formData punctuationForm)) = lit ''?!'' \<and>
   \<not> isWordChar 0x3F \<and> \<not> isWhiteSpace 0x3F \<and> \<not> isWordChar 0x21 \<and> \<not> isWhiteSpace 0x21 \<and>
   fst (handleCreatePost toLowerCaseLatin1 exampleNow punctuationForm) = punctuationForm \<and>
   slugWritten (handleCreatePost toLowerCaseLatin1 exampleNow punctuationForm) = Some []"
proof -
  have h1: "title (formData punctuationForm) \<noteq> []"
    and h2: "content (formData punctuationForm) \<noteq> []"
    and h3: "slug (formData punctuationForm) = []"
    by (simp_all add: example_eval lit_def)
  have l: "toLowerCaseLatin1 (title (formData punctuationForm)) = lit ''?!''"
    by (simp add: example_eval string_eval)
  have k: "\<not> isWordChar 0x3F \<and> \<not> isWhiteSpace 0x3F \<and> \<not> isWordChar 0x21 \<and> \<not> isWhiteSpace 0x21"
    by (simp add: isWordChar_def isWhiteSpace_def)
  have h4: "\<forall>c\<in>set (toLowerCaseLatin1 (title (formData punctuationForm))).
              \<not> isWordChar c \<and> \<not> isWhiteSpace c"
    using k by (simp add: l) (simp add: lit_def)
  from punctuation_title_empty_slug [of punctuationForm toLowerCaseLatin1 exampleNow, OF h1 h2 h3 h4]
       h1 h2 h3 l k
  show ?thesis by simp
qed


section \<open>A failed fetch of the URLs\<close>





section \<open>The overlay writes into the defaults\<close>

text \<open>
  C6: the overlay copies \<open>defaultUrls\<close> with a shallow spread and assigns through the
  section objects both maps share, so it changes \<open>defaultUrls\<close> itself. For every list
  of rows of the declared type, however it is given as a value (\<open>asRows\<close>; the values
  \<open>ofRow\<close> builds are among them, by \<open>asRows_ofRows\<close>): after \<open>mapUrlsToState\<close> has
  run, \<open>defaultUrls\<close> shows the overlaid values, the same as the state of the hook; from
  the freshly loaded module these are the values of the literal with the rows laid over
  them. A later fetch that falls back to the defaults (a failed fetch with nothing
  cached, or one that returns no data) shows the overlaid values.
\<close>

theorem overlay_mutates_defaults:
  assumes "asRows d = Some data"
  shows
  "readUrls (fst (fst (mapUrlsToState ge d (st, s)))) defaultUrls =
     overlaidWith (readUrls st defaultUrls) data \<and>
   shown (fst (mapUrlsToState ge d (st, s))) =
     readUrls (fst (fst (mapUrlsToState ge d (st, s)))) defaultUrls \<and>
   readUrls (fst (fst (mapUrlsToState ge d (moduleStore, s)))) defaultUrls =
     overlaidWith hardcodedUrls data \<and>
   shown (fetchUrls parse ge (Errored e) None
            (fst (fst (mapUrlsToState ge d (st, s))), initialHook)) =
     overlaidWith (readUrls st defaultUrls) data \<and>
   shown (fetchUrls parse ge (Data None) localData
            (fst (fst (mapUrlsToState ge d (st, s))), initialHook)) =
     overlaidWith (readUrls st defaultUrls) data"
proof -
  have c: "cachedCopy parse None = None"
    by (simp add: cachedCopy_def)
  have f: "shown (fetchUrls parse ge (Errored e) None (st', initialHook)) = readUrls st' defaultUrls"
    for st'
    using fetch_failed_uncached [OF c, of ge e st' initialHook]
    by (simp add: shown_def initialHook_def)
  have g: "shown (fetchUrls parse ge (Data None) localData (st', initialHook)) =
             readUrls st' defaultUrls" for st'
    by (simp add: fetch_no_data shown_def initialHook_def)
  from mapUrlsToState_rows [OF assms, of ge st s] mapUrlsToState_rows [OF assms, of ge moduleStore s]
       shown_mapUrlsToState [OF assms, of ge st s]
  show ?thesis
    by (simp add: f g readUrls_moduleStore)
qed

text \<open>
  At a concrete input: rows that name another address for the CTA section, laid over the
  freshly loaded module, leave that address in \<open>defaultUrls\<close> in place of the one of the
  literal, and a later failed fetch with nothing cached shows it.
\<close>

theorem overlay_mutates_defaults_witness:
  "asRows exampleCached = Some exampleRows \<and>
   ctaRegisterButton hardcodedUrls = Str (lit ''https://rapatin.id/register'') \<and>
   ctaRegisterButton
     (readUrls (fst (fst (mapUrlsToState geNumber exampleCached (moduleStore, initialHook))))
        defaultUrls) =
     Str (lit ''https://example.org/join'') \<and>
   ctaRegisterButton
     (shown (fetchUrls exampleParse geNumber (Errored (lit ''offline'')) None
        (fst (fst (mapUrlsToState geNumber exampleCached (moduleStore, initialHook))),
         initialHook))) =
     Str (lit ''https://example.org/join'')"
proof -
  from overlay_mutates_defaults [OF asRows_exampleCached, of geNumber moduleStore initialHook
         exampleParse "lit ''offline''" None]
       asRows_exampleCached overlaid_example
  show ?thesis by (simp add: readUrls_moduleStore) (simp add: hardcodedUrls_def)
qed


section \<open>Deleting a post\<close>

text \<open>
  C10: for every post identifier, once the delete request for it has been served, the
  list a later fetch returns (whether the select succeeds or fails) contains no post
  with that identifier; and a confirmed delete makes exactly that request.
\<close>

theorem deleted_post_not_fetched:
  "i \<notin> id' ` set (fst (fetchBlogPosts formatDate failure
                           (serve assigned (deletePostMutationFn i) t) s)) \<and>
   snd (handleDeletePost True i s) = Some (deletePostMutationFn i)"
  by (auto simp: fetchBlogPosts_def blogPostsQueryFn_def deletePostMutationFn_def dbDelete_def
        dbSelect_def toBlogPost_def handleDeletePost_def split: option.splits)

end
